theory Spec2Isabelle
  imports Main "HOL-Library.Word"
begin

unbundle bit_operations_syntax

section \<open>Data model\<close>

type_synonym byte = "8 word"
type_synonym bytes = "byte list"

text \<open>
  Go error values. The two \<open>errors.New\<close> values of the crypto file and the one of
  \<open>Vault.Ref\<close> get a constructor each; an error value produced by a collaborator
  outside the modelled code (the random source, a \<open>SetIV\<close> implementation, the storage
  backend, the filename and file codecs) is \<open>ErrExternal\<close> with its message. Go compares
  error values by identity, so a collaborator's error is never one of the others.
\<close>

datatype error =
    ErrKeySize        \<comment> \<open>"xela/crypto: incorrect size for decryption key"\<close>
  | ErrBufferSize     \<comment> \<open>"xela/crypto: incorrect size for src or dst parameter"\<close>
  | ErrRefTODO        \<comment> \<open>"xela/crypto: TODO: implement Ref"\<close>
  | ErrExternal string

text \<open>
  Go run-time panics that the modelled code can reach: a slice expression out of range
  (\<open>SliceBoundsCap h c\<close>: high bound \<open>h\<close> above the capacity \<open>c\<close>; \<open>SliceBounds l h\<close>:
  low bound above high bound), and the three panics of the standard library's CBC mode.
\<close>

datatype panic =
    SliceBoundsCap nat nat
  | SliceBounds nat nat
  | IVLength                  \<comment> \<open>"cipher.NewCBC...: IV length must equal block size"\<close>
  | InputNotFullBlocks        \<comment> \<open>"crypto/cipher: input not full blocks"\<close>
  | OutputSmallerThanInput    \<comment> \<open>"crypto/cipher: output smaller than input"\<close>

datatype 'a outcome = Return 'a | Panic panic

text \<open>
  A Go slice: the elements of its backing array from the slice's first element up to its
  capacity, and its length. \<open>elems\<close> are the elements the slice shows.
\<close>

record 'a slice =
  s_arr :: "'a list"
  s_len :: nat

definition cap :: "'a slice \<Rightarrow> nat" where
  "cap s = length (s_arr s)"

definition elems :: "'a slice \<Rightarrow> 'a list" where
  "elems s = take (s_len s) (s_arr s)"

definition slice_of :: "'a list \<Rightarrow> 'a slice" where
  \<comment> \<open>a slice whose capacity equals its length\<close>
  "slice_of xs = \<lparr>s_arr = xs, s_len = length xs\<rparr>"

definition slice_bounds :: "nat \<Rightarrow> nat \<Rightarrow> nat \<Rightarrow> panic option" where
  \<comment> \<open>the run-time check of \<open>s[lo:hi]\<close> on a slice of capacity \<open>c\<close>\<close>
  "slice_bounds c lo hi =
     (if c < hi then Some (SliceBoundsCap hi c)
      else if hi < lo then Some (SliceBounds lo hi)
      else None)"

section \<open>The standard library's block cipher and CBC mode\<close>

text \<open>
  \<open>crypto/aes\<close> and \<open>crypto/cipher\<close> are not part of the repository. The block cipher is
  a parameter: its two block functions, and \<open>blk_SetIV\<close>, which says whether the mode
  object built over this block implements the repository's interface
  \<open>settableIV { SetIV(iv []byte) error }\<close> (\<open>None\<close>: the type assertion fails) and, when it
  does, what \<open>SetIV\<close> answers: an error message, or the IV the mode holds afterwards.
\<close>

record cipher_Block =
  blk_Encrypt :: "bytes \<Rightarrow> bytes"
  blk_Decrypt :: "bytes \<Rightarrow> bytes"
  blk_SetIV :: "(bytes \<Rightarrow> string + bytes) option"

definition BlockSize :: nat where
  \<comment> \<open>\<open>aes.BlockSize\<close>\<close>
  "BlockSize = 16"

record BlockMode =
  mode_b :: cipher_Block
  mode_iv :: bytes

definition NewCBCDecrypter :: "cipher_Block \<Rightarrow> bytes \<Rightarrow> panic + BlockMode" where
  \<comment> \<open>panics unless the IV has the block size; keeps a copy of the IV\<close>
  "NewCBCDecrypter b iv =
     (if length iv \<noteq> BlockSize then Inl IVLength else Inr \<lparr>mode_b = b, mode_iv = iv\<rparr>)"

definition NewCBCEncrypter :: "cipher_Block \<Rightarrow> bytes \<Rightarrow> panic + BlockMode" where
  "NewCBCEncrypter b iv =
     (if length iv \<noteq> BlockSize then Inl IVLength else Inr \<lparr>mode_b = b, mode_iv = iv\<rparr>)"

fun split_blocks :: "nat \<Rightarrow> bytes \<Rightarrow> bytes list" where
  "split_blocks 0 src = []"
| "split_blocks (Suc n) src = take BlockSize src # split_blocks n (drop BlockSize src)"

definition xor_bytes :: "bytes \<Rightarrow> bytes \<Rightarrow> bytes" where
  "xor_bytes a b = map2 (\<lambda>x y. x XOR y) a b"

fun cbc_decrypt :: "(bytes \<Rightarrow> bytes) \<Rightarrow> bytes \<Rightarrow> bytes list \<Rightarrow> bytes" where
  "cbc_decrypt D prev [] = []"
| "cbc_decrypt D prev (c # cs) = xor_bytes (D c) prev @ cbc_decrypt D c cs"

fun cbc_encrypt :: "(bytes \<Rightarrow> bytes) \<Rightarrow> bytes \<Rightarrow> bytes list \<Rightarrow> bytes list" where
  "cbc_encrypt E prev [] = []"
| "cbc_encrypt E prev (p # ps) = (let c = E (xor_bytes p prev) in c # cbc_encrypt E c ps)"

text \<open>
  \<open>BlockMode.CryptBlocks(dst, src)\<close>, as \<open>crypto/cipher\<close> documents and implements it:
  the length of \<open>src\<close> must be a multiple of the block size and \<open>dst\<close> must be at least
  as long as \<open>src\<close>, otherwise it panics, before it writes anything. It writes the first
  \<open>len(src)\<close> bytes of \<open>dst\<close> and leaves in the mode, as the next IV, the last ciphertext
  block. The result is the outcome, the mode afterwards and the contents of \<open>dst\<close>
  afterwards. \<open>dst\<close> and \<open>src\<close> are taken not to overlap.
\<close>

definition cbcDecrypter_CryptBlocks ::
  "BlockMode \<Rightarrow> bytes \<Rightarrow> bytes \<Rightarrow> unit outcome \<times> BlockMode \<times> bytes" where
  "cbcDecrypter_CryptBlocks m dst src =
     (if length src mod BlockSize \<noteq> 0 then (Panic InputNotFullBlocks, m, dst)
      else if length dst < length src then (Panic OutputSmallerThanInput, m, dst)
      else if length src = 0 then (Return (), m, dst)
      else
        (let blocks = split_blocks (length src div BlockSize) src
         in (Return (),
             m\<lparr>mode_iv := last blocks\<rparr>,
             cbc_decrypt (blk_Decrypt (mode_b m)) (mode_iv m) blocks @ drop (length src) dst)))"

definition cbcEncrypter_CryptBlocks ::
  "BlockMode \<Rightarrow> bytes \<Rightarrow> bytes \<Rightarrow> unit outcome \<times> BlockMode \<times> bytes" where
  "cbcEncrypter_CryptBlocks m dst src =
     (if length src mod BlockSize \<noteq> 0 then (Panic InputNotFullBlocks, m, dst)
      else if length dst < length src then (Panic OutputSmallerThanInput, m, dst)
      else if length src = 0 then (Return (), m, dst)
      else
        (let out = cbc_encrypt (blk_Encrypt (mode_b m)) (mode_iv m)
                     (split_blocks (length src div BlockSize) src)
         in (Return (),
             m\<lparr>mode_iv := last out\<rparr>,
             concat out @ drop (length src) dst)))"

definition aes_NewCipher :: "(bytes \<Rightarrow> cipher_Block) \<Rightarrow> bytes \<Rightarrow> error + cipher_Block" where
  \<comment> \<open>\<open>aes.NewCipher\<close>: a key of 16, 24 or 32 bytes, else a \<open>KeySizeError\<close>;
      \<open>aes\<close> is the cipher itself, a parameter\<close>
  "aes_NewCipher aes key =
     (if length key = 16 \<or> length key = 24 \<or> length key = 32 then Inr (aes key)
      else Inl (ErrExternal ''crypto/aes: invalid key size''))"

text \<open>
  \<open>crypto/rand.Read(b)\<close>: the secure random source is a parameter, the answer to its
  \<open>k\<close>-th call: the random bytes (by position), with which the call fills \<open>b\<close> entirely,
  or the message of the error that the call returns. Whether the call can return an error
  depends on the Go toolchain: up to Go 1.23 it returns the error of the underlying
  reader; from Go 1.24 it never returns one (a failing reader ends the process there,
  which no function of this model returns from), so that there the source only answers
  with bytes and line 87 is never reached.
\<close>

type_synonym rand_source = "nat \<Rightarrow> string + (nat \<Rightarrow> byte)"

definition rand_Read :: "rand_source \<Rightarrow> nat \<Rightarrow> bytes \<Rightarrow> error option \<times> bytes" where
  "rand_Read rnd k b =
     (case rnd k of
        Inl msg \<Rightarrow> (Some (ErrExternal msg), b)
      | Inr f \<Rightarrow> (None, map f [0..<length b]))"

section \<open>The superblock codec\<close>

subsection \<open>XelaDecrypter\<close>

record XelaDecrypter =
  dec_b :: cipher_Block
  dec_cbc :: "BlockMode option"

definition NewXelaDecrypter :: "(bytes \<Rightarrow> cipher_Block) \<Rightarrow> bytes \<Rightarrow> error + XelaDecrypter" where
  "NewXelaDecrypter aes key =
     (if length key \<noteq> 32 then Inl ErrKeySize
      else
        (case aes_NewCipher aes key of
           Inl err \<Rightarrow> Inl err
         | Inr b \<Rightarrow> Inr \<lparr>dec_b = b, dec_cbc = None\<rparr>))"

text \<open>
  Lines 49 to 61 of \<open>DecryptSuperblock\<close>: the mode object that will decrypt, with the
  superblock's IV installed: a new one when none is cached or the cached one has no
  \<open>SetIV\<close>, else the cached one after \<open>SetIV\<close>. \<open>Inl\<close> is the way the function ends
  when this part ends it: the error \<open>SetIV\<close> returned, or a panic.
\<close>

definition DecryptSuperblock_cbc ::
  "XelaDecrypter \<Rightarrow> bytes \<Rightarrow> error option outcome + BlockMode" where
  "DecryptSuperblock_cbc x iv =
     (case dec_cbc x of
        None \<Rightarrow>
          (case NewCBCDecrypter (dec_b x) iv of Inl p \<Rightarrow> Inl (Panic p) | Inr m \<Rightarrow> Inr m)
      | Some s \<Rightarrow>
          (case blk_SetIV (mode_b s) of
             Some SetIV \<Rightarrow>
               (case SetIV iv of
                  Inl msg \<Rightarrow> Inl (Return (Some (ErrExternal msg)))
                | Inr iv' \<Rightarrow> Inr (s\<lparr>mode_iv := iv'\<rparr>))
           | None \<Rightarrow>
               (case NewCBCDecrypter (dec_b x) iv of Inl p \<Rightarrow> Inl (Panic p) | Inr m \<Rightarrow> Inr m)))"

text \<open>
  \<open>DecryptSuperblock(plaintext, ciphertext)\<close>. The result is the outcome (the returned
  error, \<open>None\<close> for nil, or a panic), the decrypter afterwards and the contents of the
  destination \<open>plaintext\<close> afterwards.
\<close>

definition DecryptSuperblock ::
  "XelaDecrypter \<Rightarrow> bytes \<Rightarrow> bytes \<Rightarrow> error option outcome \<times> XelaDecrypter \<times> bytes" where
  "DecryptSuperblock x plaintext ciphertext =
     (if length ciphertext \<noteq> 256 \<or> length plaintext \<noteq> 239
      then (Return (Some ErrBufferSize), x, plaintext)
      else
        (let iv = take 16 ciphertext in
         case DecryptSuperblock_cbc x iv of
           Inl stop \<Rightarrow> (stop, x, plaintext)
         | Inr m \<Rightarrow>
             (case cbcDecrypter_CryptBlocks m plaintext (drop 16 ciphertext) of
                (Panic p, m', dst) \<Rightarrow> (Panic p, x\<lparr>dec_cbc := Some m'\<rparr>, dst)
              | (Return u, m', dst) \<Rightarrow> (Return None, x\<lparr>dec_cbc := Some m'\<rparr>, dst))))"

subsection \<open>XelaEncrypter\<close>

record XelaEncrypter =
  enc_b :: cipher_Block
  enc_cbc :: "BlockMode option"

definition blocksNeeded :: "nat \<Rightarrow> nat" where
  \<comment> \<open>line 78, on the length of the plaintext\<close>
  "blocksNeeded n = n div 239 + n mod 239"

text \<open>
  What \<open>Encrypt\<close> changes while it runs: the encrypter (its cached mode object), the
  backing array that the local slice \<open>c\<close> shares with \<open>*ciphertext\<close>, the buffer \<open>iv\<close>,
  and the number of calls made to the random source so far.
\<close>

record Encrypt_state =
  st_x :: XelaEncrypter
  st_c :: bytes
  st_iv :: bytes
  st_draws :: nat

text \<open>Lines 90 to 102, the counterpart of lines 49 to 61 of \<open>DecryptSuperblock\<close>.\<close>

definition Encrypt_cbc ::
  "XelaEncrypter \<Rightarrow> bytes \<Rightarrow> error option outcome + BlockMode" where
  "Encrypt_cbc x iv =
     (case enc_cbc x of
        None \<Rightarrow>
          (case NewCBCEncrypter (enc_b x) iv of Inl p \<Rightarrow> Inl (Panic p) | Inr m \<Rightarrow> Inr m)
      | Some s \<Rightarrow>
          (case blk_SetIV (mode_b s) of
             Some SetIV \<Rightarrow>
               (case SetIV iv of
                  Inl msg \<Rightarrow> Inl (Return (Some (ErrExternal msg)))
                | Inr iv' \<Rightarrow> Inr (s\<lparr>mode_iv := iv'\<rparr>))
           | None \<Rightarrow>
               (case NewCBCEncrypter (enc_b x) iv of Inl p \<Rightarrow> Inl (Panic p) | Inr m \<Rightarrow> Inr m)))"

text \<open>
  One pass through the loop body (lines 84 to 104) at \<open>blockIndex\<close>. \<open>Return None\<close>
  says that the body ran to its end; any other outcome ends \<open>Encrypt\<close>. The two slice
  expressions of line 104 are checked in the order they are written, the destination
  \<open>c[blockIndex*256+16 : blockIndex*256]\<close> first.
\<close>

definition Encrypt_body ::
  "rand_source \<Rightarrow> byte slice \<Rightarrow> nat \<Rightarrow> Encrypt_state \<Rightarrow> error option outcome \<times> Encrypt_state" where
  "Encrypt_body rnd plaintext blockIndex s =
     (case rand_Read rnd (st_draws s) (st_iv s) of
        (Some err, iv) \<Rightarrow> (Return (Some err), s\<lparr>st_iv := iv, st_draws := Suc (st_draws s)\<rparr>)
      | (None, iv) \<Rightarrow>
          (let s1 = s\<lparr>st_iv := iv, st_draws := Suc (st_draws s)\<rparr> in
           case Encrypt_cbc (st_x s1) iv of
             Inl stop \<Rightarrow> (stop, s1)
           | Inr m \<Rightarrow>
               (let s2 = s1\<lparr>st_x := (st_x s1)\<lparr>enc_cbc := Some m\<rparr>\<rparr>;
                    lo = blockIndex * 256 + 16;
                    hi = blockIndex * 256
                in case slice_bounds (length (st_c s2)) lo hi of
                     Some p \<Rightarrow> (Panic p, s2)
                   | None \<Rightarrow>
                       (case slice_bounds (cap plaintext) (blockIndex * 239) ((blockIndex + 1) * 239) of
                          Some p \<Rightarrow> (Panic p, s2)
                        | None \<Rightarrow>
                            (case cbcEncrypter_CryptBlocks m
                                    (take (hi - lo) (drop lo (st_c s2)))
                                    (take 239 (drop (blockIndex * 239) (s_arr plaintext))) of
                               (Panic p, m', dst) \<Rightarrow>
                                 (Panic p, s2\<lparr>st_x := (st_x s2)\<lparr>enc_cbc := Some m'\<rparr>\<rparr>)
                             | (Return u, m', dst) \<Rightarrow>
                                 (Return None,
                                  s2\<lparr>st_x := (st_x s2)\<lparr>enc_cbc := Some m'\<rparr>,
                                     st_c := take lo (st_c s2) @ dst @
                                             drop (lo + length dst) (st_c s2)\<rparr>))))))"

function Encrypt_loop ::
  "rand_source \<Rightarrow> byte slice \<Rightarrow> nat \<Rightarrow> nat \<Rightarrow> Encrypt_state \<Rightarrow> error option outcome \<times> Encrypt_state" where
  "Encrypt_loop rnd plaintext n blockIndex s =
     (if blockIndex < n then
        (case Encrypt_body rnd plaintext blockIndex s of
           (Return None, s') \<Rightarrow> Encrypt_loop rnd plaintext n (blockIndex + 1) s'
         | (r, s') \<Rightarrow> (r, s'))
      else (Return None, s))"
  by pat_completeness auto
termination
  by (relation "measure (\<lambda>(rnd, plaintext, n, blockIndex, s). n - blockIndex)") auto

declare Encrypt_loop.simps [simp del]

text \<open>
  \<open>Encrypt(ciphertext, plaintext)\<close>, called when the random source has been read
  \<open>draws\<close> times. The result is the outcome, the slice \<open>*ciphertext\<close> afterwards (line 79
  sets it to a slice of length 0 over the new array and nothing assigns it again) and the
  final state.
\<close>

definition Encrypt ::
  "rand_source \<Rightarrow> nat \<Rightarrow> XelaEncrypter \<Rightarrow> byte slice \<Rightarrow>
     error option outcome \<times> byte slice \<times> Encrypt_state" where
  "Encrypt rnd draws x plaintext =
     (let n = blocksNeeded (s_len plaintext);
          s0 = \<lparr>st_x = x, st_c = replicate (n * 256) 0, st_iv = replicate 16 0,
                st_draws = draws\<rparr>
      in case Encrypt_loop rnd plaintext n 0 s0 of
           (r, s) \<Rightarrow> (r, \<lparr>s_arr = st_c s, s_len = 0\<rparr>, s))"

section \<open>The vault decorator\<close>

subsection \<open>Collaborators\<close>

text \<open>
  The storage backend \<open>vault.Vault[InnerRef]\<close> is an interface; its implementation is a
  parameter. Each method reads and changes the backend's own state \<open>'st\<close>; \<open>Root\<close> and a
  reference's \<open>Name\<close> are plain values. A Go result \<open>(T, error)\<close> is \<open>error + T\<close>, except
  for \<open>List\<close>, whose slice and error are kept as a pair, and a result \<open>error\<close> is
  \<open>error option\<close>.
\<close>

record ('ref, 'kind, 'st) inner_Vault =
  inner_Root :: "'ref"
  inner_List :: "'st \<Rightarrow> 'ref \<Rightarrow> ('ref list \<times> error option) \<times> 'st"
  inner_Ref :: "'st \<Rightarrow> 'ref \<Rightarrow> string \<Rightarrow> (error + 'ref) \<times> 'st"
  inner_Create :: "'st \<Rightarrow> 'ref \<Rightarrow> string \<Rightarrow> 'kind \<Rightarrow> (error + 'ref) \<times> 'st"
  inner_Read :: "'st \<Rightarrow> 'ref \<Rightarrow> (error + bytes) \<times> 'st"
  inner_Write :: "'st \<Rightarrow> 'ref \<Rightarrow> bytes \<Rightarrow> error option \<times> 'st"
  inner_Delete :: "'st \<Rightarrow> 'ref \<Rightarrow> error option \<times> 'st"
  ref_Name :: "'ref \<Rightarrow> string"

text \<open>
  The world the decorator acts on: the backend's state, and the record of every call
  made to the backend, in order.
\<close>

datatype ('ref, 'kind) call =
    CallList 'ref
  | CallRef 'ref string
  | CallCreate 'ref string 'kind
  | CallRead 'ref
  | CallWrite 'ref bytes
  | CallDelete 'ref

record ('ref, 'kind, 'st) world =
  store :: 'st
  calls :: "('ref, 'kind) call list"

definition call_List ::
  "('ref, 'kind, 'st) inner_Vault \<Rightarrow> ('ref, 'kind, 'st) world \<Rightarrow> 'ref \<Rightarrow>
     ('ref list \<times> error option) \<times> ('ref, 'kind, 'st) world" where
  "call_List inner w r =
     (case inner_List inner (store w) r of
        (res, st) \<Rightarrow> (res, \<lparr>store = st, calls = calls w @ [CallList r]\<rparr>))"

definition call_Ref ::
  "('ref, 'kind, 'st) inner_Vault \<Rightarrow> ('ref, 'kind, 'st) world \<Rightarrow> 'ref \<Rightarrow> string \<Rightarrow>
     (error + 'ref) \<times> ('ref, 'kind, 'st) world" where
  "call_Ref inner w r name =
     (case inner_Ref inner (store w) r name of
        (res, st) \<Rightarrow> (res, \<lparr>store = st, calls = calls w @ [CallRef r name]\<rparr>))"

definition call_Create ::
  "('ref, 'kind, 'st) inner_Vault \<Rightarrow> ('ref, 'kind, 'st) world \<Rightarrow> 'ref \<Rightarrow> string \<Rightarrow> 'kind \<Rightarrow>
     (error + 'ref) \<times> ('ref, 'kind, 'st) world" where
  "call_Create inner w r name kind =
     (case inner_Create inner (store w) r name kind of
        (res, st) \<Rightarrow> (res, \<lparr>store = st, calls = calls w @ [CallCreate r name kind]\<rparr>))"

definition call_Read ::
  "('ref, 'kind, 'st) inner_Vault \<Rightarrow> ('ref, 'kind, 'st) world \<Rightarrow> 'ref \<Rightarrow>
     (error + bytes) \<times> ('ref, 'kind, 'st) world" where
  "call_Read inner w r =
     (case inner_Read inner (store w) r of
        (res, st) \<Rightarrow> (res, \<lparr>store = st, calls = calls w @ [CallRead r]\<rparr>))"

definition call_Write ::
  "('ref, 'kind, 'st) inner_Vault \<Rightarrow> ('ref, 'kind, 'st) world \<Rightarrow> 'ref \<Rightarrow> bytes \<Rightarrow>
     error option \<times> ('ref, 'kind, 'st) world" where
  "call_Write inner w r data =
     (case inner_Write inner (store w) r data of
        (res, st) \<Rightarrow> (res, \<lparr>store = st, calls = calls w @ [CallWrite r data]\<rparr>))"

definition call_Delete ::
  "('ref, 'kind, 'st) inner_Vault \<Rightarrow> ('ref, 'kind, 'st) world \<Rightarrow> 'ref \<Rightarrow>
     error option \<times> ('ref, 'kind, 'st) world" where
  "call_Delete inner w r =
     (case inner_Delete inner (store w) r of
        (res, st) \<Rightarrow> (res, \<lparr>store = st, calls = calls w @ [CallDelete r]\<rparr>))"

text \<open>
  Package \<open>fixpt.org/xela/crypt\<close> is used by the decorator and is not among the source
  files. Its codec objects are parameters, each method a function: \<open>EncryptFile\<close> and
  \<open>DecryptFile\<close> are called with \<open>nil\<close> as their first argument, which is left out.
\<close>

record crypt_Encrypter =
  EncryptFilename :: "string \<Rightarrow> error + string"
  EncryptFile :: "bytes \<Rightarrow> error + bytes"

record crypt_Decrypter =
  DecryptFilename :: "string \<Rightarrow> error + string"
  DecryptFile :: "bytes \<Rightarrow> error + bytes"

text \<open>
  The struct \<open>c\<close> that \<open>Open\<close> decodes \<open>crypt.json\<close> into. The types \<open>crypt.Salt\<close> and
  \<open>crypt.KDFParameters\<close> are type parameters.
\<close>

record ('salt, 'kdf) crypt_json =
  Salt :: 'salt
  KDFParameters :: 'kdf

text \<open>
  What \<open>Open\<close> calls outside the decorator: \<open>json.Unmarshal(data, &c)\<close> of the standard
  library, which returns an error or nil and leaves the struct as it decoded it (given the
  struct before the call); the zero value of the struct, which \<open>var c\<close> holds before the
  call; and \<open>crypt.DeriveKey\<close>, \<open>crypt.NewEncrypter\<close> and \<open>crypt.NewDecrypter\<close>.
\<close>

record ('salt, 'kdf) crypt_pkg =
  json_Unmarshal :: "bytes \<Rightarrow> ('salt, 'kdf) crypt_json \<Rightarrow> error option \<times> ('salt, 'kdf) crypt_json"
  zero_value :: "('salt, 'kdf) crypt_json"
  DeriveKey :: "bytes \<Rightarrow> 'salt \<Rightarrow> 'kdf \<Rightarrow> bytes"
  NewEncrypter :: "bytes \<Rightarrow> error + crypt_Encrypter"
  NewDecrypter :: "bytes \<Rightarrow> error + crypt_Decrypter"

subsection \<open>Vault\<close>

record ('ref, 'kind, 'st) Vault =
  v_inner :: "('ref, 'kind, 'st) inner_Vault"
  v_enc :: crypt_Encrypter
  v_dec :: crypt_Decrypter

record 'ref ItemRef =
  ref_inner :: 'ref
  ref_name :: string

text \<open>
  \<open>Open\<close>. Line 39 calls \<open>json.Unmarshal\<close> as a statement: the error it returns is
  dropped, and \<open>c\<close> is used as the call left it.
\<close>

definition Open ::
  "('salt, 'kdf) crypt_pkg \<Rightarrow> ('ref, 'kind, 'st) inner_Vault \<Rightarrow> ('ref, 'kind, 'st) world \<Rightarrow> bytes \<Rightarrow>
     (error + ('ref, 'kind, 'st) Vault) \<times> ('ref, 'kind, 'st) world" where
  "Open pkg inner w password =
     (case call_Ref inner w (inner_Root inner) ''crypt.json'' of
        (Inl err, w1) \<Rightarrow> (Inl err, w1)
      | (Inr cryptJsonRef, w1) \<Rightarrow>
          (case call_Read inner w1 cryptJsonRef of
             (Inl err, w2) \<Rightarrow> (Inl err, w2)
           | (Inr cryptJsonBytes, w2) \<Rightarrow>
               (let c = snd (json_Unmarshal pkg cryptJsonBytes (zero_value pkg));
                    key = DeriveKey pkg password (Salt c) (KDFParameters c)
                in case NewEncrypter pkg key of
                     Inl err \<Rightarrow> (Inl err, w2)
                   | Inr enc \<Rightarrow>
                       (case NewDecrypter pkg key of
                          Inl err \<Rightarrow> (Inl err, w2)
                        | Inr dec \<Rightarrow>
                            (Inr \<lparr>v_inner = inner, v_enc = enc, v_dec = dec\<rparr>, w2)))))"

definition Vault_Root :: "('ref, 'kind, 'st) Vault \<Rightarrow> 'ref ItemRef" where
  "Vault_Root v = \<lparr>ref_inner = inner_Root (v_inner v), ref_name = []\<rparr>"

definition decryptInnerRef :: "('ref, 'kind, 'st) Vault \<Rightarrow> 'ref \<Rightarrow> error + 'ref ItemRef" where
  "decryptInnerRef v innerRef =
     (let Name = ref_Name (v_inner v) innerRef in
      case DecryptFilename (v_dec v) Name of
        Inl err \<Rightarrow> Inl err
      | Inr decryptedName \<Rightarrow> Inr \<lparr>ref_inner = innerRef, ref_name = decryptedName\<rparr>)"

text \<open>
  The loop of \<open>List\<close> over \<open>repoItems\<close>, with \<open>items\<close> as collected so far. On an error
  the function returns \<open>nil, err\<close>: the nil slice is the empty list.
\<close>

fun List_loop ::
  "('ref, 'kind, 'st) Vault \<Rightarrow> 'ref list \<Rightarrow> 'ref ItemRef list \<Rightarrow> 'ref ItemRef list \<times> error option" where
  "List_loop v [] items = (items, None)"
| "List_loop v (repoItem # rest) items =
     (case decryptInnerRef v repoItem of
        Inl err \<Rightarrow> ([], Some err)
      | Inr item \<Rightarrow> List_loop v rest (items @ [item]))"

definition Vault_List ::
  "('ref, 'kind, 'st) Vault \<Rightarrow> ('ref, 'kind, 'st) world \<Rightarrow> 'ref ItemRef \<Rightarrow>
     ('ref ItemRef list \<times> error option) \<times> ('ref, 'kind, 'st) world" where
  "Vault_List v w where' =
     (case call_List (v_inner v) w (ref_inner where') of
        ((repoItems, Some err), w1) \<Rightarrow> (([], Some err), w1)
      | ((repoItems, None), w1) \<Rightarrow> (List_loop v repoItems [], w1))"

definition Vault_Ref ::
  "('ref, 'kind, 'st) Vault \<Rightarrow> ('ref, 'kind, 'st) world \<Rightarrow> 'ref ItemRef \<Rightarrow> string \<Rightarrow>
     (error + 'ref ItemRef) \<times> ('ref, 'kind, 'st) world" where
  "Vault_Ref v w where' name = (Inl ErrRefTODO, w)"

definition Vault_Create ::
  "('ref, 'kind, 'st) Vault \<Rightarrow> ('ref, 'kind, 'st) world \<Rightarrow> 'ref ItemRef \<Rightarrow> string \<Rightarrow> 'kind \<Rightarrow>
     (error + 'ref ItemRef) \<times> ('ref, 'kind, 'st) world" where
  "Vault_Create v w where' name kind =
     (case EncryptFilename (v_enc v) name of
        Inl err \<Rightarrow> (Inl err, w)
      | Inr encryptedName \<Rightarrow>
          (case call_Create (v_inner v) w (ref_inner where') encryptedName kind of
             (Inl err, w1) \<Rightarrow> (Inl err, w1)
           | (Inr repoItem, w1) \<Rightarrow> (decryptInnerRef v repoItem, w1)))"

definition Vault_Read ::
  "('ref, 'kind, 'st) Vault \<Rightarrow> ('ref, 'kind, 'st) world \<Rightarrow> 'ref ItemRef \<Rightarrow>
     (error + bytes) \<times> ('ref, 'kind, 'st) world" where
  "Vault_Read v w file =
     (case call_Read (v_inner v) w (ref_inner file) of
        (Inl err, w1) \<Rightarrow> (Inl err, w1)
      | (Inr ciphertext, w1) \<Rightarrow> (DecryptFile (v_dec v) ciphertext, w1))"

definition Vault_Write ::
  "('ref, 'kind, 'st) Vault \<Rightarrow> ('ref, 'kind, 'st) world \<Rightarrow> 'ref ItemRef \<Rightarrow> bytes \<Rightarrow>
     error option \<times> ('ref, 'kind, 'st) world" where
  "Vault_Write v w file data =
     (case EncryptFile (v_enc v) data of
        Inl err \<Rightarrow> (Some err, w)
      | Inr ciphertext \<Rightarrow> call_Write (v_inner v) w (ref_inner file) ciphertext)"

definition Vault_Delete ::
  "('ref, 'kind, 'st) Vault \<Rightarrow> ('ref, 'kind, 'st) world \<Rightarrow> 'ref ItemRef \<Rightarrow>
     error option \<times> ('ref, 'kind, 'st) world" where
  "Vault_Delete v w item = call_Delete (v_inner v) w (ref_inner item)"


section \<open>Conditions on the parameters, and stand-ins to run the model on\<close>

text \<open>
  The contract of \<open>SetIV\<close>, where the mode object has one: given an IV of the block size
  it returns no error and the mode then holds that IV.
\<close>

definition SetIV_resets :: "cipher_Block \<Rightarrow> bool" where
  "SetIV_resets b =
     (case blk_SetIV b of
        None \<Rightarrow> True
      | Some SetIV \<Rightarrow> (\<forall>iv. length iv = BlockSize \<longrightarrow> SetIV iv = Inr iv))"

text \<open>
  The cached mode object of an encrypter was built over its own block cipher (\<open>Encrypt\<close>
  builds it from \<open>x.b\<close> only).
\<close>

definition enc_cbc_ok :: "XelaEncrypter \<Rightarrow> bool" where
  "enc_cbc_ok x = (case enc_cbc x of None \<Rightarrow> True | Some m \<Rightarrow> mode_b m = enc_b x)"


text \<open>
  Stand-ins for the parameters, to evaluate the model on concrete inputs: a block cipher
  that XORs with the first 16 key bytes and whose mode objects have \<open>SetIV\<close>, a key, a
  random source that works and one that fails.
\<close>

definition demo_aes :: "bytes \<Rightarrow> cipher_Block" where
  "demo_aes key =
     \<lparr>blk_Encrypt = (\<lambda>blk. xor_bytes blk (take 16 key)),
      blk_Decrypt = (\<lambda>blk. xor_bytes blk (take 16 key)),
      blk_SetIV = Some (\<lambda>iv. Inr iv)\<rparr>"

definition demo_key :: bytes where
  "demo_key = replicate 32 7"

definition demo_rand :: rand_source where
  "demo_rand k = Inr (\<lambda>i. of_nat (k + i))"


text \<open>
  An in-memory backend: its state is the list of items (name and content), a reference is
  the item's name, the root is the empty name.
\<close>

definition mem_inner :: "(string, unit, (string \<times> bytes) list) inner_Vault" where
  "mem_inner =
     \<lparr>inner_Root = [],
      inner_List = (\<lambda>st r. ((map fst st, None), st)),
      inner_Ref = (\<lambda>st r name.
         (case map_of st name of
            None \<Rightarrow> Inl (ErrExternal ''no such item'')
          | Some content \<Rightarrow> Inr name, st)),
      inner_Create = (\<lambda>st r name kind. (Inr name, st @ [(name, [])])),
      inner_Read = (\<lambda>st r.
         (case map_of st r of
            None \<Rightarrow> Inl (ErrExternal ''no such item'')
          | Some content \<Rightarrow> Inr content, st)),
      inner_Write = (\<lambda>st r data. (None, map (\<lambda>(n, c). if n = r then (n, data) else (n, c)) st)),
      inner_Delete = (\<lambda>st r. (None, filter (\<lambda>(n, c). n \<noteq> r) st)),
      ref_Name = (\<lambda>r. r)\<rparr>"

text \<open>
  Codecs of the simplest kind: a name is encrypted by the prefix \<open>x-\<close>, the empty name
  is refused; a file is encrypted by reversal, a file of more than four bytes is refused.
\<close>

definition demo_enc :: crypt_Encrypter where
  "demo_enc =
     \<lparr>EncryptFilename = (\<lambda>name.
         if name = [] then Inl (ErrExternal ''empty name'') else Inr (''x-'' @ name)),
      EncryptFile = (\<lambda>data.
         if 4 < length data then Inl (ErrExternal ''file too large'') else Inr (rev data))\<rparr>"

definition demo_dec :: crypt_Decrypter where
  "demo_dec =
     \<lparr>DecryptFilename = (\<lambda>name.
         if take 2 name = ''x-'' then Inr (drop 2 name)
         else Inl (ErrExternal ''not an encrypted name'')),
      DecryptFile = (\<lambda>data. Inr (rev data))\<rparr>"

text \<open>
  A \<open>crypt\<close> package over them: \<open>json.Unmarshal\<close> accepts only input that starts with an
  opening brace, and otherwise returns a syntax error and leaves the struct untouched, as
  the standard library does on input that is not JSON; the key is the first 32 bytes of
  password, salt and padding.
\<close>

definition demo_pkg :: "(bytes, nat) crypt_pkg" where
  "demo_pkg =
     \<lparr>json_Unmarshal = (\<lambda>data c.
         if take 1 data = [123] then (None, c)
         else (Some (ErrExternal ''invalid character looking for beginning of value''), c)),
      zero_value = \<lparr>Salt = [], KDFParameters = 0\<rparr>,
      DeriveKey = (\<lambda>password salt kdf. take 32 (password @ salt @ replicate 32 0)),
      NewEncrypter = (\<lambda>key. if length key = 32 then Inr demo_enc else Inl ErrKeySize),
      NewDecrypter = (\<lambda>key. if length key = 32 then Inr demo_dec else Inl ErrKeySize)\<rparr>"


section \<open>Properties of the superblock codec\<close>

subsection \<open>DecryptSuperblock\<close>

lemma CryptBlocks_240_into_239:
  "length dst = 239 \<Longrightarrow> length src = 240 \<Longrightarrow>
   cbcDecrypter_CryptBlocks m dst src = (Panic OutputSmallerThanInput, m, dst)"
  by (simp add: cbcDecrypter_CryptBlocks_def BlockSize_def)

lemma DecryptSuperblock_valid_sizes:
  assumes "length ciphertext = 256" and "length plaintext = 239"
  shows "DecryptSuperblock x plaintext ciphertext =
     (case DecryptSuperblock_cbc x (take 16 ciphertext) of
        Inl stop \<Rightarrow> (stop, x, plaintext)
      | Inr m \<Rightarrow> (Panic OutputSmallerThanInput, x\<lparr>dec_cbc := Some m\<rparr>, plaintext))"
  using assms
  by (simp add: DecryptSuperblock_def CryptBlocks_240_into_239 split: sum.splits)


lemma DecryptSuperblock_cbc_not_size:
  "DecryptSuperblock_cbc x iv \<noteq> Inl (Return (Some ErrBufferSize))"
  by (auto simp: DecryptSuperblock_cbc_def split: option.splits sum.splits)

text \<open>
  C4. The claim: for every 256-byte ciphertext and 239-byte destination,
  \<open>DecryptSuperblock\<close> succeeds and writes the 239 plaintext bytes into the destination.
  The code does not: on buffers of these sizes the call never returns nil and never
  changes the destination. It hands the 240 ciphertext bytes after the IV and the
  239-byte destination to \<open>CryptBlocks\<close>, which panics on a destination shorter than
  its input; on a decrypter with no cached mode object that panic is the outcome.
\<close>

theorem DecryptSuperblock_never_succeeds:
  assumes "length ciphertext = 256" and "length plaintext = 239"
  shows "fst (DecryptSuperblock x plaintext ciphertext) \<noteq> Return None \<and>
         snd (snd (DecryptSuperblock x plaintext ciphertext)) = plaintext \<and>
         (dec_cbc x = None \<longrightarrow>
            fst (DecryptSuperblock x plaintext ciphertext) = Panic OutputSmallerThanInput)"
  using assms
  by (auto simp: DecryptSuperblock_valid_sizes NewCBCDecrypter_def BlockSize_def
      DecryptSuperblock_cbc_def split: sum.splits option.splits)

theorem DecryptSuperblock_never_succeeds_witness:
  "fst (DecryptSuperblock \<lparr>dec_b = demo_aes demo_key, dec_cbc = None\<rparr>
          (replicate 239 0) (replicate 256 0)) = Panic OutputSmallerThanInput \<and>
   snd (snd (DecryptSuperblock \<lparr>dec_b = demo_aes demo_key, dec_cbc = None\<rparr>
          (replicate 239 0) (replicate 256 0))) = replicate 239 0"
  using DecryptSuperblock_never_succeeds
    [of "replicate 256 0" "replicate 239 0" "\<lparr>dec_b = demo_aes demo_key, dec_cbc = None\<rparr>"]
  by simp

text \<open>
  C5. \<open>DecryptSuperblock\<close> returns the size error exactly when the ciphertext is not 256
  bytes long or the destination is not 239 bytes long.
\<close>

theorem DecryptSuperblock_size_error_iff:
  "fst (DecryptSuperblock x plaintext ciphertext) = Return (Some ErrBufferSize) \<longleftrightarrow>
     (length ciphertext \<noteq> 256 \<or> length plaintext \<noteq> 239)"
proof (cases "length ciphertext \<noteq> 256 \<or> length plaintext \<noteq> 239")
  case True
  then show ?thesis by (simp add: DecryptSuperblock_def)
next
  case False
  then have sz: "length ciphertext = 256" "length plaintext = 239" by simp_all
  have "fst (DecryptSuperblock x plaintext ciphertext) \<noteq> Return (Some ErrBufferSize)"
    using DecryptSuperblock_cbc_not_size [of x "take 16 ciphertext"]
    by (auto simp: DecryptSuperblock_valid_sizes [OF sz] split: sum.splits)
  with False show ?thesis by simp
qed

theorem DecryptSuperblock_size_error_iff_witness:
  "fst (DecryptSuperblock \<lparr>dec_b = demo_aes demo_key, dec_cbc = None\<rparr>
          (replicate 239 0) (replicate 255 0)) = Return (Some ErrBufferSize) \<and>
   fst (DecryptSuperblock \<lparr>dec_b = demo_aes demo_key, dec_cbc = None\<rparr>
          (replicate 239 0) (replicate 257 0)) = Return (Some ErrBufferSize) \<and>
   fst (DecryptSuperblock \<lparr>dec_b = demo_aes demo_key, dec_cbc = None\<rparr>
          (replicate 240 0) (replicate 256 0)) = Return (Some ErrBufferSize) \<and>
   fst (DecryptSuperblock \<lparr>dec_b = demo_aes demo_key, dec_cbc = None\<rparr>
          (replicate 239 0) (replicate 256 0)) \<noteq> Return (Some ErrBufferSize)"
  using
    DecryptSuperblock_size_error_iff
      [of "\<lparr>dec_b = demo_aes demo_key, dec_cbc = None\<rparr>" "replicate 239 0" "replicate 255 0"]
    DecryptSuperblock_size_error_iff
      [of "\<lparr>dec_b = demo_aes demo_key, dec_cbc = None\<rparr>" "replicate 239 0" "replicate 257 0"]
    DecryptSuperblock_size_error_iff
      [of "\<lparr>dec_b = demo_aes demo_key, dec_cbc = None\<rparr>" "replicate 240 0" "replicate 256 0"]
    DecryptSuperblock_size_error_iff
      [of "\<lparr>dec_b = demo_aes demo_key, dec_cbc = None\<rparr>" "replicate 239 0" "replicate 256 0"]
  by simp



subsection \<open>Encrypt\<close>

lemma ceil_aux:
  fixes q r :: nat
  assumes "r < 239"
  shows "(239 * q + r + 238) div 239 = q + (if r = 0 then 0 else 1)"
proof (rule div_nat_eqI)
  show "239 * (q + (if r = 0 then 0 else 1)) \<le> 239 * q + r + 238"
    by (cases "r = 0") simp_all
  show "239 * q + r + 238 < 239 * Suc (q + (if r = 0 then 0 else 1))"
    using assms by (cases "r = 0") simp_all
qed

lemma blocksNeeded_ceiling_iff:
  "blocksNeeded n = (n + 238) div 239 \<longleftrightarrow> n mod 239 \<le> 1"
proof -
  define q where "q = n div 239"
  define r where "r = n mod 239"
  have n: "n = 239 * q + r" by (simp only: q_def r_def mult_div_mod_eq)
  have r: "r < 239" by (simp only: r_def mod_less_divisor zero_less_numeral)
  have "blocksNeeded n = q + r" by (simp only: blocksNeeded_def q_def r_def)
  moreover have "(n + 238) div 239 = q + (if r = 0 then 0 else 1)"
    by (simp only: n ceil_aux [OF r])
  moreover have "q + r = q + (if r = 0 then 0 else 1) \<longleftrightarrow> r \<le> 1"
    by (cases "r = 0") auto
  ultimately show ?thesis by (simp only: r_def)
qed

lemma blocksNeeded_pos:
  assumes "0 < n"
  shows "0 < blocksNeeded n"
proof -
  define q where "q = n div 239"
  define r where "r = n mod 239"
  have n: "n = 239 * q + r" by (simp only: q_def r_def mult_div_mod_eq)
  have b: "blocksNeeded n = q + r" by (simp only: blocksNeeded_def q_def r_def)
  from assms n have "0 < q + r" by (cases q) auto
  with b show ?thesis by simp
qed

lemma slice_bounds_reversed:
  "slice_bounds c (i * 256 + 16) (i * 256) =
     Some (if c < i * 256 then SliceBoundsCap (i * 256) c
           else SliceBounds (i * 256 + 16) (i * 256))"
  by (simp add: slice_bounds_def)

lemma Encrypt_cbc_stop:
  "Encrypt_cbc x iv = Inl stop \<Longrightarrow> stop \<noteq> Return None"
  by (auto simp: Encrypt_cbc_def split: option.splits sum.splits)

lemma Encrypt_cbc_fresh:
  assumes "length iv = 16" and "SetIV_resets (enc_b x)" and "enc_cbc_ok x"
  shows "Encrypt_cbc x iv = Inr \<lparr>mode_b = enc_b x, mode_iv = iv\<rparr>"
  using assms
  by (auto simp: Encrypt_cbc_def NewCBCEncrypter_def BlockSize_def SetIV_resets_def
      enc_cbc_ok_def split: option.splits sum.splits)

lemma Encrypt_body_rand_error:
  "rand_Read rnd (st_draws s) (st_iv s) = (Some err, iv) \<Longrightarrow>
   Encrypt_body rnd plaintext blockIndex s =
     (Return (Some err), s\<lparr>st_iv := iv, st_draws := Suc (st_draws s)\<rparr>)"
  by (simp add: Encrypt_body_def)

lemma Encrypt_body_cbc_stop:
  "rand_Read rnd (st_draws s) (st_iv s) = (None, iv) \<Longrightarrow>
   Encrypt_cbc (st_x s) iv = Inl stop \<Longrightarrow>
   Encrypt_body rnd plaintext blockIndex s =
     (stop, s\<lparr>st_iv := iv, st_draws := Suc (st_draws s)\<rparr>)"
  by (simp add: Encrypt_body_def)

lemma Encrypt_body_slice_panic:
  "rand_Read rnd (st_draws s) (st_iv s) = (None, iv) \<Longrightarrow>
   Encrypt_cbc (st_x s) iv = Inr m \<Longrightarrow>
   Encrypt_body rnd plaintext blockIndex s =
     (Panic (if length (st_c s) < blockIndex * 256
             then SliceBoundsCap (blockIndex * 256) (length (st_c s))
             else SliceBounds (blockIndex * 256 + 16) (blockIndex * 256)),
      s\<lparr>st_iv := iv, st_draws := Suc (st_draws s),
        st_x := (st_x s)\<lparr>enc_cbc := Some m\<rparr>\<rparr>)"
  unfolding Encrypt_body_def Let_def
  apply (simp only: slice_bounds_reversed option.case prod.case)
  apply simp
  done

lemma Encrypt_body_cases:
  obtains (rand_error) err iv where
      "rand_Read rnd (st_draws s) (st_iv s) = (Some err, iv)"
      "Encrypt_body rnd plaintext blockIndex s =
         (Return (Some err), s\<lparr>st_iv := iv, st_draws := Suc (st_draws s)\<rparr>)"
  | (cbc_stop) iv stop where
      "rand_Read rnd (st_draws s) (st_iv s) = (None, iv)"
      "Encrypt_cbc (st_x s) iv = Inl stop"
      "Encrypt_body rnd plaintext blockIndex s =
         (stop, s\<lparr>st_iv := iv, st_draws := Suc (st_draws s)\<rparr>)"
  | (slice_panic) iv m p where
      "rand_Read rnd (st_draws s) (st_iv s) = (None, iv)"
      "Encrypt_cbc (st_x s) iv = Inr m"
      "Encrypt_body rnd plaintext blockIndex s =
         (Panic p, s\<lparr>st_iv := iv, st_draws := Suc (st_draws s),
                     st_x := (st_x s)\<lparr>enc_cbc := Some m\<rparr>\<rparr>)"
proof -
  obtain e iv where r: "rand_Read rnd (st_draws s) (st_iv s) = (e, iv)"
    by (cases "rand_Read rnd (st_draws s) (st_iv s)")
  show ?thesis
  proof (cases e)
    case None
    show ?thesis
    proof (cases "Encrypt_cbc (st_x s) iv")
      case (Inl stop)
      with r None show ?thesis
        using cbc_stop Encrypt_body_cbc_stop by blast
    next
      case (Inr m)
      with r None show ?thesis
        using slice_panic Encrypt_body_slice_panic by blast
    qed
  next
    case (Some err)
    with r show ?thesis
      using rand_error Encrypt_body_rand_error by blast
  qed
qed

lemma Encrypt_body_never_completes:
  "fst (Encrypt_body rnd plaintext blockIndex s) \<noteq> Return None"
  by (cases rule: Encrypt_body_cases [of rnd s plaintext blockIndex])
     (auto dest: Encrypt_cbc_stop)

lemma Encrypt_body_c:
  "st_c (snd (Encrypt_body rnd plaintext blockIndex s)) = st_c s"
  by (cases rule: Encrypt_body_cases [of rnd s plaintext blockIndex]) auto


lemma Encrypt_loop_step:
  assumes "blockIndex < n"
  shows "Encrypt_loop rnd plaintext n blockIndex s = Encrypt_body rnd plaintext blockIndex s"
proof -
  obtain r s' where b: "Encrypt_body rnd plaintext blockIndex s = (r, s')"
    by (cases "Encrypt_body rnd plaintext blockIndex s")
  with Encrypt_body_never_completes [of rnd plaintext blockIndex s]
  have "r \<noteq> Return None" by simp
  with assms b show ?thesis
    by (subst Encrypt_loop.simps) (simp split: outcome.splits option.splits)
qed

lemma Encrypt_loop_done:
  "\<not> blockIndex < n \<Longrightarrow> Encrypt_loop rnd plaintext n blockIndex s = (Return None, s)"
  by (subst Encrypt_loop.simps) simp

lemma Encrypt_loop_c:
  "st_c (snd (Encrypt_loop rnd plaintext n blockIndex s)) = st_c s"
proof (cases "blockIndex < n")
  case True
  then show ?thesis by (simp add: Encrypt_loop_step Encrypt_body_c)
next
  case False
  then show ?thesis by (simp add: Encrypt_loop_done)
qed

lemma Encrypt_nonempty:
  assumes "0 < s_len plaintext"
  shows "Encrypt rnd draws x plaintext =
     (case Encrypt_body rnd plaintext 0
             \<lparr>st_x = x, st_c = replicate (blocksNeeded (s_len plaintext) * 256) 0,
              st_iv = replicate 16 0, st_draws = draws\<rparr> of
        (r, s) \<Rightarrow> (r, \<lparr>s_arr = st_c s, s_len = 0\<rparr>, s))"
  using blocksNeeded_pos [OF assms]
  by (simp add: Encrypt_def Encrypt_loop_step)

lemma rand_Read_Inr:
  "rnd k = Inr f \<Longrightarrow> rand_Read rnd k b = (None, map f [0..<length b])"
  by (simp add: rand_Read_def)

lemma Encrypt_ciphertext:
  "fst (snd (Encrypt rnd draws x plaintext)) =
     \<lparr>s_arr = replicate (blocksNeeded (s_len plaintext) * 256) 0, s_len = 0\<rparr>"
proof -
  let ?s0 = "\<lparr>st_x = x, st_c = replicate (blocksNeeded (s_len plaintext) * 256) 0,
              st_iv = replicate 16 0, st_draws = draws\<rparr>"
  obtain r s where l: "Encrypt_loop rnd plaintext (blocksNeeded (s_len plaintext)) 0 ?s0 = (r, s)"
    by (cases "Encrypt_loop rnd plaintext (blocksNeeded (s_len plaintext)) 0 ?s0")
  from Encrypt_loop_c [of rnd plaintext "blocksNeeded (s_len plaintext)" 0 ?s0]
  have "st_c s = replicate (blocksNeeded (s_len plaintext) * 256) 0"
    by (simp add: l)
  then show ?thesis by (simp add: Encrypt_def l)
qed

text \<open>
  C1. The claim: decrypting the result of encrypting any plaintext gives the plaintext
  back. The code does not get that far: for every non-empty plaintext \<open>Encrypt\<close> never
  returns nil, so there is no ciphertext to decrypt. When the random source answers the
  first call and the mode object is set up, the outcome is the panic of the slice
  expression \<open>c[16:0]\<close> of line 104, whose bounds are reversed.
\<close>

theorem Encrypt_nonempty_never_succeeds:
  assumes "0 < s_len plaintext"
  shows "fst (Encrypt rnd draws x plaintext) \<noteq> Return None \<and>
         (\<forall>f. rnd draws = Inr f \<longrightarrow> SetIV_resets (enc_b x) \<longrightarrow> enc_cbc_ok x \<longrightarrow>
            fst (Encrypt rnd draws x plaintext) = Panic (SliceBounds 16 0))"
proof -
  let ?s0 = "\<lparr>st_x = x, st_c = replicate (blocksNeeded (s_len plaintext) * 256) 0,
              st_iv = replicate 16 0, st_draws = draws\<rparr>"
  have e: "fst (Encrypt rnd draws x plaintext) = fst (Encrypt_body rnd plaintext 0 ?s0)"
    by (simp add: Encrypt_nonempty [OF assms] split: prod.splits)
  have "fst (Encrypt_body rnd plaintext 0 ?s0) = Panic (SliceBounds 16 0)"
    if f: "rnd draws = Inr f" and r: "SetIV_resets (enc_b x)" and ok: "enc_cbc_ok x" for f
  proof -
    have "rand_Read rnd (st_draws ?s0) (st_iv ?s0) = (None, map f [0..<16])"
      using f by (simp add: rand_Read_Inr)
    moreover have "Encrypt_cbc (st_x ?s0) (map f [0..<16]) =
        Inr \<lparr>mode_b = enc_b x, mode_iv = map f [0..<16]\<rparr>"
      using r ok by (simp add: Encrypt_cbc_fresh)
    ultimately show ?thesis
      by (simp add: Encrypt_body_slice_panic)
  qed
  with e Encrypt_body_never_completes [of rnd plaintext 0 ?s0] show ?thesis by simp
qed

theorem Encrypt_nonempty_never_succeeds_witness:
  "fst (Encrypt demo_rand 0 \<lparr>enc_b = demo_aes demo_key, enc_cbc = None\<rparr> (slice_of [104])) =
     Panic (SliceBounds 16 0)"
proof -
  have "0 < s_len (slice_of [104 :: byte])" by (simp add: slice_of_def)
  from Encrypt_nonempty_never_succeeds [OF this, of demo_rand 0
      "\<lparr>enc_b = demo_aes demo_key, enc_cbc = None\<rparr>"]
  show ?thesis
    by (simp add: demo_rand_def SetIV_resets_def demo_aes_def enc_cbc_ok_def)
qed

text \<open>
  C2. The claim: \<open>Encrypt\<close> computes the number of superblocks as the ceiling of the
  plaintext length over 239. The code allocates room for \<open>len/239 + len%239\<close>
  superblocks, which is that ceiling only when the length leaves a remainder of 0 or 1:
  it is for 239 and 240 bytes, and it is not for two bytes, where the code counts two
  superblocks.
\<close>

theorem Encrypt_block_count:
  "cap (fst (snd (Encrypt rnd draws x plaintext))) = blocksNeeded (s_len plaintext) * 256 \<and>
   (blocksNeeded (s_len plaintext) = (s_len plaintext + 238) div 239 \<longleftrightarrow>
      s_len plaintext mod 239 \<le> 1)"
proof
  show "cap (fst (snd (Encrypt rnd draws x plaintext))) = blocksNeeded (s_len plaintext) * 256"
    by (simp only: Encrypt_ciphertext cap_def slice.select_convs length_replicate)
  show "blocksNeeded (s_len plaintext) = (s_len plaintext + 238) div 239 \<longleftrightarrow>
      s_len plaintext mod 239 \<le> 1"
    by (rule blocksNeeded_ceiling_iff)
qed


theorem Encrypt_block_count_witness:
  "cap (fst (snd (Encrypt demo_rand 0 \<lparr>enc_b = demo_aes demo_key, enc_cbc = None\<rparr>
                    (slice_of [104, 105])))) = 2 * 256 \<and>
   blocksNeeded (s_len (slice_of [104 :: byte, 105])) = 2 \<and>
   (s_len (slice_of [104 :: byte, 105]) + 238) div 239 = 1 \<and>
   blocksNeeded 239 = 1 \<and> blocksNeeded 240 = 2"
proof -
  have len: "s_len (slice_of [104 :: byte, 105]) = 2" by (simp add: slice_of_def)
  have two: "blocksNeeded 2 = 2" by (simp add: blocksNeeded_def)
  have ex: "blocksNeeded 239 = 1" "blocksNeeded 240 = 2" by (simp_all add: blocksNeeded_def)
  have ceil: "(2 + 238) div 239 = (1 :: nat)" by simp
  from Encrypt_block_count [of demo_rand 0 "\<lparr>enc_b = demo_aes demo_key, enc_cbc = None\<rparr>"
      "slice_of [104, 105]", THEN conjunct1]
  have "cap (fst (snd (Encrypt demo_rand 0 \<lparr>enc_b = demo_aes demo_key, enc_cbc = None\<rparr>
                    (slice_of [104, 105])))) = 2 * 256"
    by (simp only: len two)
  with len two ex ceil show ?thesis by (simp only: simp_thms)
qed

text \<open>
  C3. The claim: the ciphertext \<open>Encrypt\<close> produces is a buffer of the block count times
  256 bytes, each superblock an IV followed by 240 bytes of ciphertext. The code leaves
  \<open>*ciphertext\<close> a slice of length 0, whatever the plaintext and the outcome; the array
  behind it has the block count times 256 bytes, all still zero: no IV and no ciphertext
  is ever written.
\<close>

theorem Encrypt_ciphertext_stays_empty:
  "fst (snd (Encrypt rnd draws x plaintext)) =
     \<lparr>s_arr = replicate (blocksNeeded (s_len plaintext) * 256) 0, s_len = 0\<rparr> \<and>
   elems (fst (snd (Encrypt rnd draws x plaintext))) = []"
  by (simp add: Encrypt_ciphertext elems_def)

theorem Encrypt_ciphertext_stays_empty_witness:
  "length (elems (fst (snd (Encrypt demo_rand 0 \<lparr>enc_b = demo_aes demo_key, enc_cbc = None\<rparr>
                              (slice_of (replicate 239 65)))))) = 0 \<and>
   blocksNeeded (s_len (slice_of (replicate 239 (65 :: byte)))) * 256 = 256 \<and>
   take 16 (s_arr (fst (snd (Encrypt demo_rand 0 \<lparr>enc_b = demo_aes demo_key, enc_cbc = None\<rparr>
                              (slice_of (replicate 239 65)))))) = replicate 16 0"
  using Encrypt_ciphertext_stays_empty [of demo_rand 0
      "\<lparr>enc_b = demo_aes demo_key, enc_cbc = None\<rparr>" "slice_of (replicate 239 65)"]
  by (simp add: slice_of_def blocksNeeded_def elems_def)



section \<open>Properties of the vault decorator\<close>

text \<open>
  C6. The claim: when the configuration object is malformed, \<open>Open\<close> returns an error and
  never goes on with defaulted salt or KDF parameters. The code does go on: the error of
  \<open>json.Unmarshal\<close> is dropped, so when the decoding fails and leaves the struct at its
  zero value, the key is derived from the zero salt and the zero KDF parameters, and
  \<open>Open\<close> returns a vault built on that key whenever the two codecs accept it.
\<close>

theorem Open_ignores_Unmarshal_error:
  assumes "call_Ref inner w (inner_Root inner) ''crypt.json'' = (Inr cryptJsonRef, w1)"
    and "call_Read inner w1 cryptJsonRef = (Inr cryptJsonBytes, w2)"
    and "json_Unmarshal pkg cryptJsonBytes (zero_value pkg) = (Some err, zero_value pkg)"
    and "NewEncrypter pkg
           (DeriveKey pkg password (Salt (zero_value pkg)) (KDFParameters (zero_value pkg))) =
         Inr enc"
    and "NewDecrypter pkg
           (DeriveKey pkg password (Salt (zero_value pkg)) (KDFParameters (zero_value pkg))) =
         Inr dec"
  shows "Open pkg inner w password = (Inr \<lparr>v_inner = inner, v_enc = enc, v_dec = dec\<rparr>, w2)"
  using assms by (simp add: Open_def)

theorem Open_ignores_Unmarshal_error_witness:
  "Open demo_pkg mem_inner
     \<lparr>store = [(''crypt.json'', [110, 111, 116, 32, 106, 115, 111, 110])], calls = []\<rparr>
     [1, 2, 3] =
   (Inr \<lparr>v_inner = mem_inner, v_enc = demo_enc, v_dec = demo_dec\<rparr>,
    \<lparr>store = [(''crypt.json'', [110, 111, 116, 32, 106, 115, 111, 110])],
     calls = [CallRef [] ''crypt.json'', CallRead ''crypt.json'']\<rparr>)"
proof -
  let ?st = "[(''crypt.json'', [110, 111, 116, 32, 106, 115, 111, 110 :: byte])]"
  let ?w = "\<lparr>store = ?st, calls = [] :: (string, unit) call list\<rparr>"
  let ?w1 = "\<lparr>store = ?st, calls = [CallRef [] ''crypt.json'' :: (string, unit) call]\<rparr>"
  let ?w2 = "\<lparr>store = ?st,
              calls = [CallRef [] ''crypt.json'', CallRead ''crypt.json'' :: (string, unit) call]\<rparr>"
  have r: "call_Ref mem_inner ?w (inner_Root mem_inner) ''crypt.json'' = (Inr ''crypt.json'', ?w1)"
    by (simp add: call_Ref_def mem_inner_def)
  have rd: "call_Read mem_inner ?w1 ''crypt.json'' =
      (Inr [110, 111, 116, 32, 106, 115, 111, 110], ?w2)"
    by (simp add: call_Read_def mem_inner_def)
  have u: "json_Unmarshal demo_pkg [110, 111, 116, 32, 106, 115, 111, 110] (zero_value demo_pkg) =
      (Some (ErrExternal ''invalid character looking for beginning of value''),
       zero_value demo_pkg)"
    by (simp add: demo_pkg_def)
  have e: "NewEncrypter demo_pkg (DeriveKey demo_pkg [1, 2, 3] (Salt (zero_value demo_pkg))
      (KDFParameters (zero_value demo_pkg))) = Inr demo_enc"
    by (simp add: demo_pkg_def)
  have d: "NewDecrypter demo_pkg (DeriveKey demo_pkg [1, 2, 3] (Salt (zero_value demo_pkg))
      (KDFParameters (zero_value demo_pkg))) = Inr demo_dec"
    by (simp add: demo_pkg_def)
  show ?thesis by (rule Open_ignores_Unmarshal_error [OF r rd u e d])
qed

lemma List_loop_all:
  assumes "\<forall>r\<in>set repoItems. \<not> isl (DecryptFilename (v_dec v) (ref_Name (v_inner v) r))"
  shows "List_loop v repoItems items =
     (items @ map (\<lambda>r. \<lparr>ref_inner = r,
                         ref_name = projr (DecryptFilename (v_dec v) (ref_Name (v_inner v) r))\<rparr>)
                repoItems,
      None)"
  using assms
proof (induction repoItems arbitrary: items)
  case Nil
  then show ?case by simp
next
  case (Cons repoItem rest)
  from Cons.prems obtain n where
    n: "DecryptFilename (v_dec v) (ref_Name (v_inner v) repoItem) = Inr n"
    by (cases "DecryptFilename (v_dec v) (ref_Name (v_inner v) repoItem)") auto
  from Cons.prems have "\<forall>r\<in>set rest. \<not> isl (DecryptFilename (v_dec v) (ref_Name (v_inner v) r))"
    by simp
  from Cons.IH [OF this] n show ?case
    by (simp add: decryptInnerRef_def)
qed

lemma List_loop_fail:
  assumes "\<exists>r\<in>set repoItems. isl (DecryptFilename (v_dec v) (ref_Name (v_inner v) r))"
  shows "\<exists>err r. r \<in> set repoItems \<and>
           DecryptFilename (v_dec v) (ref_Name (v_inner v) r) = Inl err \<and>
           List_loop v repoItems items = ([], Some err)"
  using assms
proof (induction repoItems arbitrary: items)
  case Nil
  then show ?case by simp
next
  case (Cons repoItem rest)
  show ?case
  proof (cases "DecryptFilename (v_dec v) (ref_Name (v_inner v) repoItem)")
    case (Inl err)
    then have "List_loop v (repoItem # rest) items = ([], Some err)"
      by (simp add: decryptInnerRef_def)
    with Inl show ?thesis by auto
  next
    case (Inr n)
    with Cons.prems
    have "\<exists>r\<in>set rest. isl (DecryptFilename (v_dec v) (ref_Name (v_inner v) r))"
      by auto
    from Cons.IH [OF this, of "items @ [\<lparr>ref_inner = repoItem, ref_name = n\<rparr>]"]
    obtain err r where "r \<in> set rest"
      "DecryptFilename (v_dec v) (ref_Name (v_inner v) r) = Inl err"
      "List_loop v rest (items @ [\<lparr>ref_inner = repoItem, ref_name = n\<rparr>]) = ([], Some err)"
      by blast
    with Inr show ?thesis by (auto simp: decryptInnerRef_def)
  qed
qed

text \<open>
  C7. Given the backend's listing, \<open>List\<close> returns one entry per backend entry, each with
  its decrypted name, when every name decrypts; and when the name of any entry fails to
  decrypt, it returns that entry's error and no entries at all.
\<close>

theorem Vault_List_all_or_nothing:
  assumes "call_List (v_inner v) w (ref_inner where') = ((repoItems, None), w1)"
  shows "((\<forall>r\<in>set repoItems. \<not> isl (DecryptFilename (v_dec v) (ref_Name (v_inner v) r))) \<longrightarrow>
            Vault_List v w where' =
              ((map (\<lambda>r. \<lparr>ref_inner = r,
                           ref_name = projr (DecryptFilename (v_dec v) (ref_Name (v_inner v) r))\<rparr>)
                  repoItems, None), w1)) \<and>
         ((\<exists>r\<in>set repoItems. isl (DecryptFilename (v_dec v) (ref_Name (v_inner v) r))) \<longrightarrow>
            (\<exists>err r. r \<in> set repoItems \<and>
               DecryptFilename (v_dec v) (ref_Name (v_inner v) r) = Inl err \<and>
               Vault_List v w where' = (([], Some err), w1)))"
proof (intro conjI impI)
  assume "\<forall>r\<in>set repoItems. \<not> isl (DecryptFilename (v_dec v) (ref_Name (v_inner v) r))"
  from List_loop_all [OF this, of "[]"] assms
  show "Vault_List v w where' =
      ((map (\<lambda>r. \<lparr>ref_inner = r,
                   ref_name = projr (DecryptFilename (v_dec v) (ref_Name (v_inner v) r))\<rparr>)
          repoItems, None), w1)"
    by (simp add: Vault_List_def)
next
  assume "\<exists>r\<in>set repoItems. isl (DecryptFilename (v_dec v) (ref_Name (v_inner v) r))"
  from List_loop_fail [OF this, of "[]"] assms
  show "\<exists>err r. r \<in> set repoItems \<and>
      DecryptFilename (v_dec v) (ref_Name (v_inner v) r) = Inl err \<and>
      Vault_List v w where' = (([], Some err), w1)"
    by (simp add: Vault_List_def)
qed

theorem Vault_List_all_or_nothing_witness:
  "fst (Vault_List \<lparr>v_inner = mem_inner, v_enc = demo_enc, v_dec = demo_dec\<rparr>
          \<lparr>store = [(''x-notes.txt'', []), (''x-a'', [])], calls = []\<rparr>
          \<lparr>ref_inner = [], ref_name = []\<rparr>) =
     ([\<lparr>ref_inner = ''x-notes.txt'', ref_name = ''notes.txt''\<rparr>,
       \<lparr>ref_inner = ''x-a'', ref_name = ''a''\<rparr>], None) \<and>
   fst (Vault_List \<lparr>v_inner = mem_inner, v_enc = demo_enc, v_dec = demo_dec\<rparr>
          \<lparr>store = [(''x-notes.txt'', []), (''garbage'', []), (''x-a'', [])], calls = []\<rparr>
          \<lparr>ref_inner = [], ref_name = []\<rparr>) =
     ([], Some (ErrExternal ''not an encrypted name''))"
proof -
  let ?v = "\<lparr>v_inner = mem_inner, v_enc = demo_enc, v_dec = demo_dec\<rparr>"
  let ?root = "\<lparr>ref_inner = [] :: string, ref_name = []\<rparr>"
  let ?s1 = "[(''x-notes.txt'', []), (''x-a'', [])] :: (string \<times> bytes) list"
  let ?s2 = "[(''x-notes.txt'', []), (''garbage'', []), (''x-a'', [])] :: (string \<times> bytes) list"
  let ?w1 = "\<lparr>store = ?s1, calls = [] :: (string, unit) call list\<rparr>"
  let ?w2 = "\<lparr>store = ?s2, calls = [] :: (string, unit) call list\<rparr>"
  have l1: "call_List (v_inner ?v) ?w1 (ref_inner ?root) =
      (([''x-notes.txt'', ''x-a''], None), \<lparr>store = ?s1, calls = [CallList []]\<rparr>)"
    by (simp add: call_List_def mem_inner_def)
  have l2: "call_List (v_inner ?v) ?w2 (ref_inner ?root) =
      (([''x-notes.txt'', ''garbage'', ''x-a''], None), \<lparr>store = ?s2, calls = [CallList []]\<rparr>)"
    by (simp add: call_List_def mem_inner_def)
  have a: "fst (Vault_List ?v ?w1 ?root) =
     ([\<lparr>ref_inner = ''x-notes.txt'', ref_name = ''notes.txt''\<rparr>,
       \<lparr>ref_inner = ''x-a'', ref_name = ''a''\<rparr>], None)"
    using Vault_List_all_or_nothing [OF l1, THEN conjunct1]
    by (simp add: mem_inner_def demo_dec_def)
  have b: "fst (Vault_List ?v ?w2 ?root) = ([], Some (ErrExternal ''not an encrypted name''))"
    using Vault_List_all_or_nothing [OF l2, THEN conjunct2]
    by (auto simp: mem_inner_def demo_dec_def)
  from a b show ?thesis by simp
qed

text \<open>
  C10. When the filename encryption fails in \<open>Create\<close>, or the file encryption fails in
  \<open>Write\<close>, that error is returned and the world is as before: the backend's state is
  unchanged and no call to the backend is recorded.
\<close>

theorem Vault_encrypt_failure_leaves_backend:
  "(EncryptFilename (v_enc v) name = Inl err \<longrightarrow>
      Vault_Create v w where' name kind = (Inl err, w)) \<and>
   (EncryptFile (v_enc v) data = Inl err \<longrightarrow>
      Vault_Write v w file data = (Some err, w))"
  by (simp add: Vault_Create_def Vault_Write_def)

theorem Vault_encrypt_failure_leaves_backend_witness:
  "Vault_Create \<lparr>v_inner = mem_inner, v_enc = demo_enc, v_dec = demo_dec\<rparr>
     \<lparr>store = [(''x-a'', [1])], calls = []\<rparr> \<lparr>ref_inner = [], ref_name = []\<rparr> [] () =
     (Inl (ErrExternal ''empty name''), \<lparr>store = [(''x-a'', [1])], calls = []\<rparr>) \<and>
   Vault_Write \<lparr>v_inner = mem_inner, v_enc = demo_enc, v_dec = demo_dec\<rparr>
     \<lparr>store = [(''x-a'', [1])], calls = []\<rparr> \<lparr>ref_inner = ''x-a'', ref_name = ''a''\<rparr>
     [1, 2, 3, 4, 5] =
     (Some (ErrExternal ''file too large''), \<lparr>store = [(''x-a'', [1])], calls = []\<rparr>) \<and>
   snd (Vault_Write \<lparr>v_inner = mem_inner, v_enc = demo_enc, v_dec = demo_dec\<rparr>
     \<lparr>store = [(''x-a'', [1])], calls = []\<rparr> \<lparr>ref_inner = ''x-a'', ref_name = ''a''\<rparr>
     [1, 2, 3]) =
     \<lparr>store = [(''x-a'', [3, 2, 1])], calls = [CallWrite ''x-a'' [3, 2, 1]]\<rparr>"
proof -
  let ?v = "\<lparr>v_inner = mem_inner, v_enc = demo_enc, v_dec = demo_dec\<rparr>"
  let ?w = "\<lparr>store = [(''x-a'', [1 :: byte])], calls = [] :: (string, unit) call list\<rparr>"
  have c: "Vault_Create ?v ?w \<lparr>ref_inner = [], ref_name = []\<rparr> [] () =
      (Inl (ErrExternal ''empty name''), ?w)"
    using Vault_encrypt_failure_leaves_backend
      [of ?v "[]" "ErrExternal ''empty name''" ?w "\<lparr>ref_inner = [], ref_name = []\<rparr>" "()",
       THEN conjunct1]
    by (simp add: demo_enc_def)
  have wr: "Vault_Write ?v ?w \<lparr>ref_inner = ''x-a'', ref_name = ''a''\<rparr> [1, 2, 3, 4, 5] =
      (Some (ErrExternal ''file too large''), ?w)"
    using Vault_encrypt_failure_leaves_backend
      [of ?v _ "ErrExternal ''file too large''" ?w _ _ "[1, 2, 3, 4, 5]"
          "\<lparr>ref_inner = ''x-a'', ref_name = ''a''\<rparr>", THEN conjunct2]
    by (simp add: demo_enc_def)
  have ok: "snd (Vault_Write ?v ?w \<lparr>ref_inner = ''x-a'', ref_name = ''a''\<rparr> [1, 2, 3]) =
      \<lparr>store = [(''x-a'', [3, 2, 1])], calls = [CallWrite ''x-a'' [3, 2, 1]]\<rparr>"
    by (simp add: Vault_Write_def demo_enc_def call_Write_def mem_inner_def)
  from c wr ok show ?thesis by simp
qed


end
